theory Spec2Isabelle
  imports Complex_Main
begin

section \<open>The PowerCore module of klippy/extras/powercore.py\<close>

text \<open>
  A shallow embedding of the class \<^verbatim>\<open>PowerCore\<close> and of its helper \<^verbatim>\<open>WireMover\<close>.
  Python floats are modelled as real numbers, so rounding error of the floating point
  arithmetic is outside the model. Exceptions are values of the type \<open>error\<close>; calls
  to collaborators (the tool head, the G-code dispatcher, the printer, the reactor and
  the output pins) are recorded as a list of \<open>event\<close>s in the order of the calls.
\<close>

subsection \<open>Python numerics\<close>

definition py_round :: "real \<Rightarrow> int" where
  \<comment> \<open>Python's one-argument \<^verbatim>\<open>round\<close>: to the nearest integer, a tie to the even one.\<close>
  "py_round x =
     (let f = \<lfloor>x\<rfloor>; r = x - of_int f
      in if r < 1 / 2 then f
         else if 1 / 2 < r then f + 1
         else if even f then f else f + 1)"

definition round_ndigits :: "real \<Rightarrow> nat \<Rightarrow> real" where
  \<comment> \<open>\<^verbatim>\<open>round(x, n)\<close> for \<open>n \<ge> 0\<close> decimal places.\<close>
  "round_ndigits x n = of_int (py_round (x * 10 ^ n)) / 10 ^ n"

datatype error =
    AttributeError
  | ZeroDivisionError
  | IndexError
  | ValueError
  | CommandError string

subsection \<open>Collaborators\<close>

text \<open>
  The class \<^verbatim>\<open>Move\<close> of toolhead.py is constructed by \<^verbatim>\<open>split_move\<close>, which
  reads four of its attributes. Its constructor is a parameter of the model.
\<close>

record Move =
  start_pos :: "real list"
  end_pos :: "real list"
  move_d :: real
  axes_r :: "real list"

text \<open>
  The printer has one tool head object; a Python attribute holding it is
  \<open>Some ToolHeadObject\<close>, an attribute holding \<^verbatim>\<open>None\<close> is \<open>None\<close>. The state of
  the tool head itself is a value of a type \<open>'th\<close> the model does not look into.
\<close>

datatype toolhead_ref = ToolHeadObject

text \<open>
  What the model needs of the tool head:
  \<^item> \<open>th_get_position\<close> is \<^verbatim>\<open>toolhead.get_position()\<close>;
  \<^item> \<open>th_Move\<close> is \<^verbatim>\<open>Move(toolhead, pos, newpos, speed, skip_junction=True)\<close>;
  \<^item> \<open>th_move\<close> is \<^verbatim>\<open>toolhead.move(newpos, speed)\<close>: either the command error
    \<^verbatim>\<open>gcode.error\<close> is raised, with its text (\<open>Inl\<close>), or the move is taken and
    the tool head reaches a new state (\<open>Inr\<close>); the other calls made on the tool head
    and the reactor are taken not to raise;
  \<^item> \<open>th_flush\<close> is \<^verbatim>\<open>toolhead.lookahead.flush()\<close> after a look-ahead callback has
    been registered: the new state of the tool head, and the next move time the
    callback was called with, if it was called.
\<close>

record 'th toolhead_api =
  th_get_position :: "'th \<Rightarrow> real list"
  th_Move :: "'th \<Rightarrow> real list \<Rightarrow> real list \<Rightarrow> real \<Rightarrow> Move"
  th_move :: "'th \<Rightarrow> real list \<Rightarrow> real \<Rightarrow> string + 'th"
  th_flush :: "'th \<Rightarrow> 'th \<times> real option"

record pwm_tool =
  pin :: string
  cycle_time :: real
  hardware_pwm :: bool
  scale :: real

datatype event =
    ToolheadMove "real list" real
  | RegisterLookaheadCallback
  | LookaheadFlush
  | ReactorPause real
  | SetPin pwm_tool real
  | RespondInfo string "real list"
  | RespondError string "real list"
  | GcodeRespondError string
  | SendEvent string
  | LoggingInfo string "real list"

text \<open>
  An operation ends in a state, has made its calls to the collaborators, and has
  raised an exception or has not.
\<close>

record 'a effect =
  state_after :: 'a
  emitted :: "event list"
  raised :: "error option"

subsection \<open>The PID controller\<close>

text \<open>
  Modelled from the spec: the class \<^verbatim>\<open>PID\<close> (package simple_pid) is not under src/.
  The fields are those of section 3 (gains, setpoint, output bounds, minimum sample
  period, accumulated integral term, last error, last sample timestamp, last output).
  The source hands the controller the reactor's clock (\<^verbatim>\<open>time_fn\<close>); here the reading
  of the clock is the argument \<open>now\<close>.
\<close>

record PID =
  Kp :: real
  Ki :: real
  Kd :: real
  setpoint :: real
  output_limits :: "real \<times> real"
  sample_time :: real
  integral :: real
  last_error :: real
  last_time :: real
  last_output :: "real option"

definition PID_new ::
  "real \<Rightarrow> real \<Rightarrow> real \<Rightarrow> real \<Rightarrow> real \<times> real \<Rightarrow> real \<Rightarrow> real \<Rightarrow> PID" where
  \<comment> \<open>Modelled from the spec: the constructor; no integral, no error, no output yet.\<close>
  "PID_new kp ki kd sp limits st now =
     \<lparr>Kp = kp, Ki = ki, Kd = kd, setpoint = sp, output_limits = limits,
      sample_time = st, integral = 0, last_error = 0, last_time = now,
      last_output = None\<rparr>"

definition PID_reset :: "PID \<Rightarrow> real \<Rightarrow> PID" where
  \<comment> \<open>Modelled from the spec: \<^verbatim>\<open>reset()\<close> zeroes integral and last error (the error
      history), leaves setpoint, gains and bounds untouched, and produces no output.
      Section 8 asks that the update after a reset behaves as on a controller just
      constructed, so the sample timestamp and the last output restart as well.\<close>
  "PID_reset p now = p\<lparr>integral := 0, last_error := 0, last_time := now, last_output := None\<rparr>"

definition clamp :: "real \<Rightarrow> real \<times> real \<Rightarrow> real" where
  "clamp v limits =
     (if snd limits < v then snd limits else if v < fst limits then fst limits else v)"

definition PID_call :: "PID \<Rightarrow> real \<Rightarrow> real \<Rightarrow> real \<times> PID" where
  \<comment> \<open>Modelled from the spec: \<^verbatim>\<open>update(sample, now)\<close> of section 4.1, as the call
      \<^verbatim>\<open>pid(sample)\<close> of the source. Within the minimum sample period no new
      output is computed and the previous output stays the answer; the source uses the
      answer as a number, so this is the case only when a previous output exists.\<close>
  "PID_call p sample now =
     (let dt = now - last_time p
      in case (if dt < sample_time p then last_output p else None) of
           Some previous \<Rightarrow> (previous, p)
         | None \<Rightarrow>
             (let err = setpoint p - sample;
                  accumulated = integral p + err * dt;
                  derivative = (if dt = 0 then 0 else (err - last_error p) / dt);
                  raw = Kp p * err + Ki p * accumulated + Kd p * derivative;
                  out = clamp raw (output_limits p)
              in (out,
                  p\<lparr>integral := (if out = raw then accumulated else integral p),
                    last_error := err, last_time := now, last_output := Some out\<rparr>)))"

subsection \<open>The wire actuators\<close>

record WireMover =
  wm_pwm_tool :: pwm_tool
  wm_toolhead :: "toolhead_ref option"

definition WireMover_init ::
  "toolhead_ref option \<Rightarrow> string \<Rightarrow> real \<Rightarrow> bool \<Rightarrow> real \<Rightarrow> WireMover" where
  "WireMover_init th p ct hw sc =
     \<lparr>wm_pwm_tool = \<lparr>pin = p, cycle_time = ct, hardware_pwm = hw, scale = sc\<rparr>,
      wm_toolhead = th\<rparr>"

definition set_speed :: "WireMover \<Rightarrow> real \<Rightarrow> error + event" where
  \<comment> \<open>\<^verbatim>\<open>self.toolhead.get_last_move_time()\<close> needs a tool head; on \<^verbatim>\<open>None\<close> the
      attribute lookup raises. The print time passed to the pin is not recorded.\<close>
  "set_speed wm speed =
     (case wm_toolhead wm of
        None \<Rightarrow> Inl AttributeError
      | Some th \<Rightarrow> Inr (SetPin (wm_pwm_tool wm) speed))"

subsection \<open>The state of PowerCore\<close>

text \<open>
  The values \<^verbatim>\<open>__init__\<close> reads from the configuration, after the configuration
  wrapper has parsed and range-checked them. \<open>cfg_alrt_sample_interval\<close> is the
  sample interval of the PWM reader, \<open>cfg_UPDATE_INTERVAL\<close> the constant of the load
  cell's sensor.
\<close>

record config =
  cfg_target_duty_cycle :: real
  cfg_min_feedrate :: real
  cfg_max_feedrate :: real
  cfg_powercore_adjustment_accel :: real
  cfg_verbose_pid_output :: bool
  cfg_verbose_move_scaling_output :: bool
  cfg_pid_kp :: real
  cfg_pid_ki :: real
  cfg_pid_kd :: real
  cfg_alrt_sample_interval :: real
  cfg_move_split_dist :: real
  cfg_move_overlap_time :: real
  cfg_default_wire_tension_target :: real
  cfg_wire_pid_kp :: real
  cfg_wire_pid_ki :: real
  cfg_wire_pid_kd :: real
  cfg_UPDATE_INTERVAL :: real
  cfg_sender_wire_motor_pin :: string
  cfg_sender_wire_cycle_time :: real
  cfg_sender_wire_hardware_pwm :: bool
  cfg_sender_wire_scale :: real
  cfg_receiver_wire_motor_pin :: string
  cfg_receiver_wire_cycle_time :: real
  cfg_receiver_wire_hardware_pwm :: bool
  cfg_receiver_wire_scale :: real
  cfg_sender_is_primary :: bool

text \<open>
  The attributes of a \<^verbatim>\<open>PowerCore\<close> object. \<open>output_value\<close> is the attribute
  \<^verbatim>\<open>output\<close>. It and \<open>processing_moves\<close> are not assigned by \<^verbatim>\<open>__init__\<close>:
  \<open>None\<close> stands for an attribute that does not
  exist yet. The handles of the printer, the reactor, the G-code dispatcher, the PWM
  reader and the load cell are not part of the state.
\<close>

record PowerCore =
  toolhead :: "toolhead_ref option"
  target_duty_cycle :: real
  min_feedrate :: real
  max_feedrate :: real
  adjustment_accel :: real
  verbose_pid_output :: bool
  verbose_move_scaling_output :: bool
  feedrate_pid_controller :: PID
  move_split_dist :: real
  move_overlap_time :: real
  scaling_enabled :: bool
  default_wire_tension_target :: real
  wire_pid_controller :: PID
  wire_tension_loop_enabled :: bool
  sender_wire_tool :: WireMover
  receiver_wire_tool :: WireMover
  sender_is_primary :: bool
  output_value :: "real option"
  processing_moves :: "bool option"

definition PowerCore_init :: "config \<Rightarrow> real \<Rightarrow> PowerCore" where
  \<comment> \<open>\<^verbatim>\<open>__init__\<close>; \<open>now\<close> is the reactor's clock when the controllers are made.\<close>
  "PowerCore_init cfg now =
     (let self_toolhead = None
      in \<lparr>toolhead = self_toolhead,
          target_duty_cycle = cfg_target_duty_cycle cfg,
          min_feedrate = cfg_min_feedrate cfg,
          max_feedrate = cfg_max_feedrate cfg,
          adjustment_accel = cfg_powercore_adjustment_accel cfg,
          verbose_pid_output = cfg_verbose_pid_output cfg,
          verbose_move_scaling_output = cfg_verbose_move_scaling_output cfg,
          feedrate_pid_controller =
            PID_new (cfg_pid_kp cfg) (cfg_pid_ki cfg) (cfg_pid_kd cfg)
              (cfg_target_duty_cycle cfg) (0, 1) (cfg_alrt_sample_interval cfg) now,
          move_split_dist = cfg_move_split_dist cfg,
          move_overlap_time = cfg_move_overlap_time cfg,
          scaling_enabled = False,
          default_wire_tension_target = cfg_default_wire_tension_target cfg,
          wire_pid_controller =
            PID_new (cfg_wire_pid_kp cfg) (cfg_wire_pid_ki cfg) (cfg_wire_pid_kd cfg)
              (cfg_default_wire_tension_target cfg) (0, 1) (cfg_UPDATE_INTERVAL cfg) now,
          wire_tension_loop_enabled = True,
          sender_wire_tool =
            WireMover_init self_toolhead (cfg_sender_wire_motor_pin cfg)
              (cfg_sender_wire_cycle_time cfg) (cfg_sender_wire_hardware_pwm cfg)
              (cfg_sender_wire_scale cfg),
          receiver_wire_tool =
            WireMover_init self_toolhead (cfg_receiver_wire_motor_pin cfg)
              (cfg_receiver_wire_cycle_time cfg) (cfg_receiver_wire_hardware_pwm cfg)
              (cfg_receiver_wire_scale cfg),
          sender_is_primary = cfg_sender_is_primary cfg,
          output_value = None,
          processing_moves = None\<rparr>)"

definition handle_connect :: "PowerCore \<Rightarrow> PowerCore" where
  \<comment> \<open>\<^verbatim>\<open>_handle_connect\<close>: the tool head is looked up and kept; the registration of
      the move transform and the patch of the kinematics are outside the state.\<close>
  "handle_connect s = s\<lparr>toolhead := Some ToolHeadObject\<rparr>"

definition returns :: "'a \<Rightarrow> event list \<Rightarrow> 'a effect" where
  "returns s evs = \<lparr>state_after = s, emitted = evs, raised = None\<rparr>"

definition raises :: "'a \<Rightarrow> event list \<Rightarrow> error \<Rightarrow> 'a effect" where
  "raises s evs e = \<lparr>state_after = s, emitted = evs, raised = Some e\<rparr>"

subsection \<open>Wire tension control\<close>

definition wire_tension_callback :: "real list \<Rightarrow> real \<Rightarrow> PowerCore \<Rightarrow> PowerCore effect" where
  \<comment> \<open>\<open>samples\<close> is \<^verbatim>\<open>msg["data"]\<close>; \<^verbatim>\<open>samples[-1]\<close> of an empty batch raises.\<close>
  "wire_tension_callback samples now s =
     (if \<not> wire_tension_loop_enabled s then returns s []
      else case samples of
        [] \<Rightarrow> raises s [] IndexError
      | _ # _ \<Rightarrow>
          (let sample = last samples;
               (out, pid) = PID_call (wire_pid_controller s) sample now;
               s1 = s\<lparr>wire_pid_controller := pid\<rparr>;
               out255 = of_int (py_round (out * 255))
           in case (if sender_is_primary s
                    then set_speed (receiver_wire_tool s1) out255
                    else set_speed (sender_wire_tool s1) out255) of
                Inl e \<Rightarrow> raises s1 [] e
              | Inr ev \<Rightarrow> returns s1 [ev]))"

definition cmd_SET_WIRE_FEED :: "real \<Rightarrow> PowerCore \<Rightarrow> PowerCore effect" where
  \<comment> \<open>\<open>speed\<close> is \<^verbatim>\<open>gcmd.get_float("speed")\<close>.\<close>
  "cmd_SET_WIRE_FEED speed s =
     (if \<not> wire_tension_loop_enabled s then
        (case set_speed (sender_wire_tool s) speed of
           Inl e \<Rightarrow> raises s [] e
         | Inr ev1 \<Rightarrow>
             (case set_speed (receiver_wire_tool s) speed of
                Inl e \<Rightarrow> raises s [ev1] e
              | Inr ev2 \<Rightarrow>
                  returns s [ev1, ev2, RespondInfo ''Wire feed speed set to: {speed}'' [speed]]))
      else
        (case (if sender_is_primary s
               then set_speed (sender_wire_tool s) speed
               else set_speed (receiver_wire_tool s) speed) of
           Inl e \<Rightarrow> raises s [] e
         | Inr ev \<Rightarrow> returns s [ev, RespondInfo ''Wire feed speed set to: {speed}'' [speed]]))"

definition cmd_ENABLE_WIRE_TENSION_LOOP :: "int \<Rightarrow> real \<Rightarrow> PowerCore \<Rightarrow> PowerCore effect" where
  \<comment> \<open>\<open>enable\<close> is \<^verbatim>\<open>gcmd.get_int("ENABLE")\<close>; \<^verbatim>\<open>bool(enable)\<close> is \<open>enable \<noteq> 0\<close>.\<close>
  "cmd_ENABLE_WIRE_TENSION_LOOP enable now s =
     (let should_enable = (enable \<noteq> 0);
          s1 = s\<lparr>wire_tension_loop_enabled := should_enable\<rparr>
      in if wire_tension_loop_enabled s1
         then returns (s1\<lparr>wire_pid_controller := PID_reset (wire_pid_controller s1) now\<rparr>)
                [RespondInfo ''Wire tension loop enabled'' []]
         else returns s1 [RespondInfo ''Wire tension loop disabled'' []])"

subsection \<open>Feedrate scaling\<close>

definition pwm_in_callback :: "real \<Rightarrow> real \<Rightarrow> PowerCore \<Rightarrow> PowerCore effect" where
  "pwm_in_callback duty_cycle now s =
     (if \<not> scaling_enabled s then returns s []
      else
        (let (out, pid) = PID_call (feedrate_pid_controller s) duty_cycle now;
             s1 = s\<lparr>feedrate_pid_controller := pid, output_value := Some out\<rparr>
         in if verbose_pid_output s1
            then returns s1 [LoggingInfo ''PowerCore PID-loop output: {self.output}'' [out]]
            else returns s1 []))"

definition cmd_set_powercore_feedrates ::
  "real option \<Rightarrow> real option \<Rightarrow> PowerCore \<Rightarrow> PowerCore effect" where
  \<comment> \<open>\<open>MIN_param\<close> and \<open>MAX_param\<close> are the parameters \<^verbatim>\<open>MIN\<close> and \<^verbatim>\<open>MAX\<close> of the
      command, \<open>None\<close> when left out:
      \<^verbatim>\<open>gcmd.get_float\<close> then answers the stored value.\<close>
  "cmd_set_powercore_feedrates MIN_param MAX_param s =
     (let min_feedrate' = (case MIN_param of None \<Rightarrow> min_feedrate s | Some v \<Rightarrow> v);
          max_feedrate' = (case MAX_param of None \<Rightarrow> max_feedrate s | Some v \<Rightarrow> v)
      in if min_feedrate' > max_feedrate'
         then returns s
                [RespondError
                   ''Min feedrate must be greater than max feedrate! ({min_feedrate} > {max_feedrate})''
                   [min_feedrate', max_feedrate']]
         else returns (s\<lparr>min_feedrate := min_feedrate', max_feedrate := max_feedrate'\<rparr>)
                [RespondInfo ''Min feedrate: {min_feedrate}, max_feedrate: {max_feedrate}''
                   [min_feedrate', max_feedrate']])"

definition enable_scaling :: "real \<Rightarrow> PowerCore \<Rightarrow> PowerCore" where
  "enable_scaling now s =
     (let s1 = s\<lparr>feedrate_pid_controller := PID_reset (feedrate_pid_controller s) now\<rparr>
      in s1\<lparr>scaling_enabled := True\<rparr>)"

definition disable_scaling :: "PowerCore \<Rightarrow> PowerCore" where
  "disable_scaling s = s\<lparr>scaling_enabled := False\<rparr>"

definition cmd_enable_scaling :: "real \<Rightarrow> PowerCore \<Rightarrow> PowerCore effect" where
  "cmd_enable_scaling now s =
     returns (enable_scaling now s) [RespondInfo ''Enabled powercore move scaling'' []]"

definition cmd_disable_scaling :: "PowerCore \<Rightarrow> PowerCore effect" where
  "cmd_disable_scaling s =
     returns (disable_scaling s) [RespondInfo ''Disabled powercore move scaling'' []]"

definition scale_move :: "PowerCore \<Rightarrow> error + real \<times> real" where
  \<comment> \<open>The answer is the pair of arguments of \<^verbatim>\<open>move.set_speed\<close>. Reading
      \<^verbatim>\<open>self.output\<close> raises when the attribute does not exist. The two debug
      lines of the verbose mode are not recorded.\<close>
  "scale_move s =
     (case output_value s of
        None \<Rightarrow> Inl AttributeError
      | Some out \<Rightarrow>
          (let feedrate = min_feedrate s + out * (max_feedrate s - min_feedrate s);
               feedrate = feedrate / 60
           in Inr (feedrate, adjustment_accel s)))"

definition check_move :: "string option \<Rightarrow> PowerCore \<Rightarrow> error + (real \<times> real) option" where
  \<comment> \<open>\<open>kin\<close> is the outcome of the kinematics' own check of the move: \<open>Some\<close> text
      when it raises the command error. The answer \<open>None\<close> is a move left as it is.\<close>
  "check_move kin s =
     (case kin of
        Some msg \<Rightarrow> Inl (CommandError msg)
      | None \<Rightarrow>
          if \<not> scaling_enabled s then Inr None
          else (case scale_move s of Inl e \<Rightarrow> Inl e | Inr args \<Rightarrow> Inr (Some args)))"

subsection \<open>Moves\<close>

type_synonym sub_move = "real list \<times> real list \<times> real"

fun execute_moves ::
  "'th toolhead_api \<Rightarrow> PowerCore \<Rightarrow> 'th \<Rightarrow> sub_move list \<Rightarrow> (PowerCore \<times> 'th) effect" where
  "execute_moves X s th [] = returns (s, th) []"
| "execute_moves X s th (move # moves) =
     (let s1 = s\<lparr>processing_moves := Some True\<rparr>
      in case toolhead s1 of
           None \<Rightarrow> raises (s1, th) [] AttributeError
         | Some r \<Rightarrow>
             (case th_move X th (fst (snd move)) (snd (snd move)) of
                Inl msg \<Rightarrow>
                  returns (s1, th)
                    [ToolheadMove (fst (snd move)) (snd (snd move)),
                     GcodeRespondError msg, SendEvent ''gcode:command_error'']
              | Inr th1 \<Rightarrow>
                  (let (th2, next_move_time) = th_flush X th1;
                       wake_time = map_option (\<lambda>t. t - move_overlap_time s1) next_move_time;
                       pause = (case wake_time of
                                  None \<Rightarrow> []
                                | Some w \<Rightarrow> if w \<noteq> 0 then [ReactorPause w] else []);
                       rest = execute_moves X s1 th2 moves
                   in rest\<lparr>emitted :=
                        [ToolheadMove (fst (snd move)) (snd (snd move)),
                         RegisterLookaheadCallback, LookaheadFlush] @ pause @ emitted rest\<rparr>)))"

definition get_position :: "'th toolhead_api \<Rightarrow> PowerCore \<Rightarrow> 'th \<Rightarrow> error + real list" where
  \<comment> \<open>Unpacking into \<^verbatim>\<open>x, y, z, e\<close> raises unless the position has four entries.\<close>
  "get_position X s th =
     (case toolhead s of
        None \<Rightarrow> Inl AttributeError
      | Some r \<Rightarrow>
          (case th_get_position X th of
             [x, y, z, e] \<Rightarrow> Inr [x, y, z, e]
           | _ \<Rightarrow> Inl ValueError))"

definition step_pos :: "real list \<Rightarrow> real \<Rightarrow> real list \<Rightarrow> error + real list" where
  \<comment> \<open>The comprehension \<^verbatim>\<open>[round(start_pos[i] + (actual_move_length * v), 3)
      for i, v in enumerate(move_vector)]\<close>; \<^verbatim>\<open>start_pos[i]\<close> raises out of range.\<close>
  "step_pos start actual_move_length move_vector =
     (if length move_vector \<le> length start
      then Inr (map (\<lambda>(i, v). round_ndigits (start ! i + actual_move_length * v) 3)
                  (enumerate 0 move_vector))
      else Inl IndexError)"

fun split_loop ::
  "nat \<Rightarrow> real \<Rightarrow> real list \<Rightarrow> real \<Rightarrow> sub_move list \<Rightarrow> error + sub_move list" where
  \<comment> \<open>The loop \<^verbatim>\<open>for _ in range(total_num_segments - 1)\<close>, by the number of rounds left.\<close>
  "split_loop 0 actual_move_length move_vector speed split_positions = Inr split_positions"
| "split_loop (Suc k) actual_move_length move_vector speed split_positions =
     (case split_positions of
        [] \<Rightarrow> Inl IndexError
      | _ # _ \<Rightarrow>
          (let start = fst (snd (last split_positions))
           in case step_pos start actual_move_length move_vector of
                Inl e \<Rightarrow> Inl e
              | Inr new_end \<Rightarrow>
                  split_loop k actual_move_length move_vector speed
                    (split_positions @ [(start, new_end, speed)])))"

definition set_last_end :: "sub_move list \<Rightarrow> real list \<Rightarrow> sub_move list" where
  \<comment> \<open>\<^verbatim>\<open>last_move = split_positions[-1]; last_move[1] = move.end_pos\<close>, on a list
      that is not empty.\<close>
  "set_last_end split_positions e =
     butlast split_positions @
       [(fst (last split_positions), e, snd (snd (last split_positions)))]"

definition split_move ::
  "'th toolhead_api \<Rightarrow> PowerCore \<Rightarrow> 'th \<Rightarrow> real list \<Rightarrow> real \<Rightarrow> error + sub_move list" where
  "split_move X s th newpos speed =
     (case get_position X s th of
        Inl e \<Rightarrow> Inl e
      | Inr pos \<Rightarrow>
          (let move = th_Move X th pos newpos speed;
               target_move_length = move_split_dist s;
               move_dist = move_d move
           in if target_move_length = 0 then Inl ZeroDivisionError
              else
                (let total_num_segments = \<lceil>move_dist / target_move_length\<rceil>
                 in if total_num_segments = 0 then Inl ZeroDivisionError
                    else
                      (let actual_move_length = move_dist / of_int total_num_segments;
                           move_vector = axes_r move
                       in case step_pos (start_pos move) actual_move_length move_vector of
                            Inl e \<Rightarrow> Inl e
                          | Inr first_move_end_pos \<Rightarrow>
                              (case split_loop (nat (total_num_segments - 1))
                                      actual_move_length move_vector speed
                                      [(start_pos move, first_move_end_pos, speed)] of
                                 Inl e \<Rightarrow> Inl e
                               | Inr split_positions \<Rightarrow>
                                   Inr (set_last_end split_positions (end_pos move)))))))"

definition move ::
  "'th toolhead_api \<Rightarrow> PowerCore \<Rightarrow> 'th \<Rightarrow> real list \<Rightarrow> real \<Rightarrow> (PowerCore \<times> 'th) effect" where
  "move X s th newpos speed =
     (if scaling_enabled s then
        (case split_move X s th newpos speed of
           Inl e \<Rightarrow> raises (s, th) [] e
         | Inr split_positions \<Rightarrow> execute_moves X s th split_positions)
      else
        (case toolhead s of
           None \<Rightarrow> raises (s, th) [] AttributeError
         | Some r \<Rightarrow>
             (case th_move X th newpos speed of
                Inl msg \<Rightarrow> raises (s, th) [ToolheadMove newpos speed] (CommandError msg)
              | Inr th1 \<Rightarrow> returns (s, th1) [ToolheadMove newpos speed])))"

subsection \<open>Properties of descriptor lists and of event lists\<close>

text \<open>Each descriptor starts where the one before it ends.\<close>

fun chained :: "sub_move list \<Rightarrow> bool" where
  "chained [] = True"
| "chained [a] = True"
| "chained (a # b # r) = (fst b = fst (snd a) \<and> chained (b # r))"

text \<open>Every coordinate is a value of \<^verbatim>\<open>round(_, 3)\<close>: rounding it again changes nothing.\<close>

definition rounded3 :: "real list \<Rightarrow> bool" where
  "rounded3 p = list_all (\<lambda>c. round_ndigits c 3 = c) p"

text \<open>The arguments of the calls of \<^verbatim>\<open>toolhead.move\<close> among the events, in order.\<close>

fun submitted :: "event list \<Rightarrow> (real list \<times> real) list" where
  "submitted [] = []"
| "submitted (ToolheadMove p v # evs) = (p, v) # submitted evs"
| "submitted (ev # evs) = submitted evs"

definition target :: "sub_move \<Rightarrow> real list \<times> real" where
  \<comment> \<open>\<^verbatim>\<open>(move[1], move[2])\<close>: what \<^verbatim>\<open>execute_moves\<close> hands to the tool head.\<close>
  "target m = (fst (snd m), snd (snd m))"

subsection \<open>An example machine\<close>

text \<open>
  The configuration with the defaults of \<^verbatim>\<open>__init__\<close>, but a segment length of 2, and
  a tool head whose state is its position, that moves along the X axis only and
  refuses a move beyond \<open>x = 6\<close>. They are the concrete inputs of the examples below.
\<close>

definition example_config :: config where
  "example_config =
     \<lparr>cfg_target_duty_cycle = 0.75, cfg_min_feedrate = 6, cfg_max_feedrate = 120,
      cfg_powercore_adjustment_accel = 5000, cfg_verbose_pid_output = False,
      cfg_verbose_move_scaling_output = False, cfg_pid_kp = 0.1, cfg_pid_ki = 0,
      cfg_pid_kd = 0, cfg_alrt_sample_interval = 0.1, cfg_move_split_dist = 2,
      cfg_move_overlap_time = 0.001, cfg_default_wire_tension_target = 0,
      cfg_wire_pid_kp = 0.1, cfg_wire_pid_ki = 0, cfg_wire_pid_kd = 0,
      cfg_UPDATE_INTERVAL = 0.1,
      cfg_sender_wire_motor_pin = ''PA1'', cfg_sender_wire_cycle_time = 0.1,
      cfg_sender_wire_hardware_pwm = False, cfg_sender_wire_scale = 1,
      cfg_receiver_wire_motor_pin = ''PA2'', cfg_receiver_wire_cycle_time = 0.1,
      cfg_receiver_wire_hardware_pwm = False, cfg_receiver_wire_scale = 1,
      cfg_sender_is_primary = True\<rparr>"

definition x_axis_Move :: "real list \<Rightarrow> real list \<Rightarrow> Move" where
  "x_axis_Move pos newpos =
     (case (pos, newpos) of
        (x0 # _, x1 # _) \<Rightarrow>
          (let d = \<bar>x1 - x0\<bar>
           in \<lparr>start_pos = pos, end_pos = newpos, move_d = d,
               axes_r = [if d = 0 then 0 else (x1 - x0) / d, 0, 0, 0]\<rparr>)
      | _ \<Rightarrow> \<lparr>start_pos = pos, end_pos = newpos, move_d = 0, axes_r = [0, 0, 0, 0]\<rparr>)"

definition example_api :: "real list toolhead_api" where
  "example_api =
     \<lparr>th_get_position = (\<lambda>th. th),
      th_Move = (\<lambda>th pos newpos speed. x_axis_Move pos newpos),
      th_move = (\<lambda>th newpos speed.
                   case newpos of
                     [] \<Rightarrow> Inl ''Move out of range''
                   | x1 # _ \<Rightarrow> if 6 < x1 then Inl ''Move out of range'' else Inr newpos),
      th_flush = (\<lambda>th. (th, Some 1))\<rparr>"

definition example_core :: PowerCore where
  "example_core = handle_connect (PowerCore_init example_config 0)"

section \<open>Verification\<close>

lemmas example_defs = example_api_def example_core_def handle_connect_def
  PowerCore_init_def enable_scaling_def example_config_def x_axis_Move_def

subsection \<open>Rounding\<close>

lemma py_round_of_int: "py_round (of_int k) = k"
  by (simp add: py_round_def)

lemma round_ndigits_idem: "round_ndigits (round_ndigits x n) n = round_ndigits x n"
  by (simp add: round_ndigits_def py_round_of_int)

lemma py_round_examples:
  "py_round (5 / 2) = 2" "py_round (7 / 2) = 4" "py_round (- 5 / 2) = - 2"
  "py_round 2.6 = 3" "py_round 255 = 255"
  by (simp_all add: py_round_def)

lemma round_ndigits_examples:
  "round_ndigits 0 3 = 0" "round_ndigits 2 3 = 2" "round_ndigits 4 3 = 4"
  "round_ndigits 6 3 = 6" "round_ndigits 8 3 = 8" "round_ndigits 10 3 = 10"
  "round_ndigits 1.2345 3 = 1.234" "round_ndigits 1.2355 3 = 1.236"
  by (simp_all add: round_ndigits_def py_round_def)

subsection \<open>The segment generator\<close>

lemma rounded3_iff: "rounded3 p \<longleftrightarrow> (\<forall>c \<in> set p. \<exists>k::int. c = of_int k / 1000)"
proof -
  have "round_ndigits c 3 = c \<longleftrightarrow> (\<exists>k::int. c = of_int k / 1000)" for c
  proof
    assume "round_ndigits c 3 = c"
    then have "c = of_int (py_round (c * 1000)) / 1000" by (simp add: round_ndigits_def)
    then show "\<exists>k::int. c = of_int k / 1000" by blast
  next
    assume "\<exists>k::int. c = of_int k / 1000"
    then obtain k :: int where "c = of_int k / 1000" by blast
    then show "round_ndigits c 3 = c" by (simp add: round_ndigits_def py_round_of_int)
  qed
  then show ?thesis by (simp add: rounded3_def list_all_iff)
qed

lemma step_pos_Inr:
  assumes "length mv \<le> length start"
  shows "\<exists>e. step_pos start a mv = Inr e \<and> length e = length mv \<and> rounded3 e"
  using assms
  by (auto simp add: step_pos_def rounded3_def list_all_iff round_ndigits_idem)

lemma chained_snoc:
  "chained sp \<Longrightarrow> sp \<noteq> [] \<Longrightarrow> fst x = fst (snd (last sp)) \<Longrightarrow> chained (sp @ [x])"
  by (induction sp rule: chained.induct) auto

text \<open>
  The loop never fails once the first descriptor is there: every round appends one
  descriptor that starts at the end of the last one, with the speed of the move and
  rounded coordinates.
\<close>

lemma split_loop_Inr:
  assumes "sp \<noteq> []" and "length (fst (snd (last sp))) = length mv"
  shows "\<exists>ext. split_loop k a mv speed sp = Inr (sp @ ext) \<and> length ext = k
           \<and> (chained sp \<longrightarrow> chained (sp @ ext))
           \<and> list_all (\<lambda>seg. snd (snd seg) = speed \<and> rounded3 (fst (snd seg))) ext"
  using assms
proof (induction k arbitrary: sp)
  case 0
  then show ?case by simp
next
  case (Suc k)
  let ?start = "fst (snd (last sp))"
  from Suc.prems obtain e where e:
    "step_pos ?start a mv = Inr e" "length e = length mv" "rounded3 e"
    using step_pos_Inr [of mv ?start a] by auto
  let ?sp = "sp @ [(?start, e, speed)]"
  have "?sp \<noteq> []" and "length (fst (snd (last ?sp))) = length mv"
    using e by simp_all
  from Suc.IH [OF this] obtain ext where ext:
    "split_loop k a mv speed ?sp = Inr (?sp @ ext)" "length ext = k"
    "chained ?sp \<longrightarrow> chained (?sp @ ext)"
    "list_all (\<lambda>seg. snd (snd seg) = speed \<and> rounded3 (fst (snd seg))) ext"
    by blast
  have run: "split_loop (Suc k) a mv speed sp = Inr (sp @ ((?start, e, speed) # ext))"
    using Suc.prems(1) e(1) ext(1) by (cases sp) simp_all
  have ch: "chained sp \<longrightarrow> chained (sp @ ((?start, e, speed) # ext))"
    using ext(3) Suc.prems(1) chained_snoc [of sp "(?start, e, speed)"] by simp
  show ?case
    using run ch ext(2,4) e(3) by (intro exI [of _ "(?start, e, speed) # ext"]) simp
qed

lemma split_loop_numeral:
  "split_loop (numeral k) a mv speed (x # xs) =
     (let start = fst (snd (last (x # xs)))
      in case step_pos start a mv of
           Inl e \<Rightarrow> Inl e
         | Inr new_end \<Rightarrow>
             split_loop (pred_numeral k) a mv speed ((x # xs) @ [(start, new_end, speed)]))"
  by (simp add: numeral_eq_Suc)

lemma chained_set_last_end: "chained sp \<Longrightarrow> sp \<noteq> [] \<Longrightarrow> chained (set_last_end sp e)"
  by (induction sp rule: chained.induct) (auto simp add: set_last_end_def)

lemma set_last_end_props:
  assumes "sp \<noteq> []"
  shows "length (set_last_end sp e) = length sp"
    and "fst (hd (set_last_end sp e)) = fst (hd sp)"
    and "fst (snd (last (set_last_end sp e))) = e"
    and "butlast (set_last_end sp e) = butlast sp"
    and "list_all (\<lambda>seg. snd (snd seg) = v) sp \<Longrightarrow>
           list_all (\<lambda>seg. snd (snd seg) = v) (set_last_end sp e)"
  using assms
  by (cases sp rule: rev_cases; simp add: set_last_end_def hd_append; fail)+

text \<open>
  On a move of positive length \<open>d\<close> with a positive segment length \<open>L\<close>,
  \<^verbatim>\<open>split_move\<close> returns \<open>\<lceil>d / L\<rceil>\<close> descriptors, for any direction of the move.
\<close>

lemma split_move_Inr:
  assumes conn: "toolhead s = Some r"
    and pos: "th_get_position X th = [x, y, z, e]"
    and m: "m = th_Move X th [x, y, z, e] newpos speed"
    and d: "0 < move_d m" and L: "0 < move_split_dist s"
    and len: "length (axes_r m) \<le> length (start_pos m)"
  shows "\<exists>segs. split_move X s th newpos speed = Inr segs
           \<and> int (length segs) = \<lceil>move_d m / move_split_dist s\<rceil>
           \<and> segs \<noteq> []
           \<and> fst (hd segs) = start_pos m
           \<and> fst (snd (last segs)) = end_pos m
           \<and> chained segs
           \<and> list_all (\<lambda>seg. snd (snd seg) = speed) segs
           \<and> list_all (\<lambda>seg. rounded3 (fst (snd seg))) (butlast segs)"
proof -
  let ?n = "\<lceil>move_d m / move_split_dist s\<rceil>"
  let ?a = "move_d m / of_int ?n"
  have n: "1 \<le> ?n" using d L by (simp add: ceiling_le_iff le_ceiling_iff)
  then have "?n \<noteq> 0" by linarith
  then have n0: "(?n = 0) = False" by blast
  obtain e1 where e1: "step_pos (start_pos m) ?a (axes_r m) = Inr e1"
    "length e1 = length (axes_r m)" "rounded3 e1"
    using step_pos_Inr [OF len] by blast
  let ?first = "(start_pos m, e1, speed)"
  obtain ext where ext:
    "split_loop (nat (?n - 1)) ?a (axes_r m) speed [?first] = Inr ([?first] @ ext)"
    "length ext = nat (?n - 1)"
    "chained [?first] \<longrightarrow> chained ([?first] @ ext)"
    "list_all (\<lambda>seg. snd (snd seg) = speed \<and> rounded3 (fst (snd seg))) ext"
    using split_loop_Inr [of "[?first]" "axes_r m" "nat (?n - 1)" ?a speed] e1(2) by auto
  let ?sp = "?first # ext"
  let ?segs = "set_last_end ?sp (end_pos m)"
  have run: "split_move X s th newpos speed = Inr ?segs"
    using conn pos m [symmetric] L e1(1) ext(1)
    by (simp add: split_move_def get_position_def Let_def n0)
  have ne: "?sp \<noteq> []" by simp
  have "int (length ?segs) = ?n"
    using set_last_end_props(1) [OF ne] ext(2) n by simp
  moreover have "?segs \<noteq> []"
    using set_last_end_props(1) [OF ne, of "end_pos m"] by auto
  moreover have "fst (hd ?segs) = start_pos m"
    using set_last_end_props(2) [OF ne] by simp
  moreover have "fst (snd (last ?segs)) = end_pos m"
    using set_last_end_props(3) [OF ne] by simp
  moreover have "chained ?segs"
    using chained_set_last_end [OF _ ne] ext(3) by simp
  moreover have "list_all (\<lambda>seg. snd (snd seg) = speed) ?segs"
    using set_last_end_props(5) [OF ne, of speed] ext(4) by (simp add: list_all_iff)
  moreover have "list_all (\<lambda>seg. rounded3 (fst (snd seg))) (butlast ?segs)"
    using set_last_end_props(4) [OF ne] ext(4) e1(3)
    by (auto simp add: list_all_iff dest: in_set_butlastD)
  ultimately show ?thesis using run by blast
qed

text \<open>
  On a move of length zero the number of segments is \<open>\<lceil>0 / L\<rceil> = 0\<close> and the
  division \<^verbatim>\<open>move_dist / total_num_segments\<close> raises.
\<close>

lemma split_move_zero_displacement:
  assumes "toolhead s = Some r"
    and "th_get_position X th = [x, y, z, e]"
    and "move_d (th_Move X th [x, y, z, e] newpos speed) = 0"
  shows "split_move X s th newpos speed = Inl ZeroDivisionError"
  using assms by (simp add: split_move_def get_position_def Let_def)

lemma step_pos_x_axis:
  "step_pos [a, b, c, d] 2 [1, 0, 0, 0] =
     Inr [round_ndigits (a + 2) 3, round_ndigits b 3, round_ndigits c 3, round_ndigits d 3]"
  by (simp add: step_pos_def)

text \<open>
  The example of section 8 of the specification: a move of 10 along X with a segment
  length of 2 gives five descriptors, and the last one ends at the requested position.
\<close>

lemma split_move_example:
  "split_move example_api (enable_scaling 1 example_core) [0, 0, 0, 0] [10, 0, 0, 0] 50 =
     Inr [([0, 0, 0, 0], [2, 0, 0, 0], 50), ([2, 0, 0, 0], [4, 0, 0, 0], 50),
          ([4, 0, 0, 0], [6, 0, 0, 0], 50), ([6, 0, 0, 0], [8, 0, 0, 0], 50),
          ([8, 0, 0, 0], [10, 0, 0, 0], 50)]"
  by (simp add: split_move_def get_position_def example_defs step_pos_x_axis
      round_ndigits_examples split_loop_numeral set_last_end_def Let_def)

text \<open>
  C1. The claim: the number of segments is \<open>\<lceil>d / L\<rceil>\<close> with a minimum of 1, so a move
  of zero displacement still yields one segment. The code has no such minimum: on the
  example machine, with scaling enabled, a move from the origin to the origin makes
  \<^verbatim>\<open>split_move\<close> raise \<^verbatim>\<open>ZeroDivisionError\<close> instead of returning one segment.
  (For \<open>d > 0\<close> the count is \<open>\<lceil>d / L\<rceil>\<close>, see \<open>split_move_Inr\<close>.)
\<close>

theorem C1_zero_displacement_raises:
  "split_move example_api (enable_scaling 1 example_core) [0, 0, 0, 0] [0, 0, 0, 0] 50 =
     Inl ZeroDivisionError"
  by (simp add: split_move_def get_position_def example_defs)

text \<open>
  C2. For a move of positive displacement and a positive segment length, with a tool
  head that is connected and reports a position \<open>[x, y, z, e]\<close>, and a \<^verbatim>\<open>Move\<close>
  object that keeps the start and the end it was made of and has one direction entry
  per coordinate at most: \<^verbatim>\<open>split_move\<close> returns a list of descriptors that is not empty;
  the first starts at the position of the tool head, the last ends at the requested
  position, each one starts where the one before ends, all carry the speed of the
  move, and the end coordinates of all but the last are rounded to 3 decimal places.
\<close>

theorem C2_split_move_reconstructs_path:
  assumes "toolhead s = Some r"
    and "th_get_position X th = [x, y, z, e]"
    and "m = th_Move X th [x, y, z, e] newpos speed"
    and "start_pos m = [x, y, z, e]" and "end_pos m = newpos"
    and "length (axes_r m) \<le> 4"
    and "0 < move_d m" and "0 < move_split_dist s"
  shows "\<exists>segs. split_move X s th newpos speed = Inr segs
           \<and> segs \<noteq> []
           \<and> fst (hd segs) = [x, y, z, e]
           \<and> fst (snd (last segs)) = newpos
           \<and> chained segs
           \<and> list_all (\<lambda>seg. snd (snd seg) = speed) segs
           \<and> list_all (\<lambda>seg. rounded3 (fst (snd seg))) (butlast segs)"
proof -
  have len: "length (axes_r m) \<le> length (start_pos m)"
    using assms(4,6) by simp
  from split_move_Inr [OF assms(1,2,3,7,8) len] obtain segs where
    "split_move X s th newpos speed = Inr segs" "segs \<noteq> []"
    "fst (hd segs) = start_pos m" "fst (snd (last segs)) = end_pos m" "chained segs"
    "list_all (\<lambda>seg. snd (snd seg) = speed) segs"
    "list_all (\<lambda>seg. rounded3 (fst (snd seg))) (butlast segs)"
    by blast
  then show ?thesis using assms(4,5) by simp
qed

theorem C2_split_move_reconstructs_path_witness:
  "\<exists>segs. split_move example_api (enable_scaling 1 example_core) [0, 0, 0, 0] [10, 0, 0, 0] 50 =
       Inr segs
     \<and> segs \<noteq> []
     \<and> fst (hd segs) = [0, 0, 0, 0]
     \<and> fst (snd (last segs)) = [10, 0, 0, 0]
     \<and> chained segs
     \<and> list_all (\<lambda>seg. snd (snd seg) = 50) segs
     \<and> list_all (\<lambda>seg. rounded3 (fst (snd seg))) (butlast segs)"
  by (rule C2_split_move_reconstructs_path
      [where r = ToolHeadObject and m = "x_axis_Move [0, 0, 0, 0] [10, 0, 0, 0]"])
    (simp_all add: example_defs)

subsection \<open>Construction\<close>

text \<open>
  C3, as claimed: right after construction both enabled flags are false and the stored
  scaling output is 0. On the example configuration this is false: \<^verbatim>\<open>__init__\<close> sets
  \<^verbatim>\<open>wire_tension_loop_enabled = True\<close>, and it does not assign \<^verbatim>\<open>output\<close> at all.
\<close>

theorem C3_initial_state_counterexample:
  "\<not> (\<not> scaling_enabled (PowerCore_init example_config 0)
      \<and> \<not> wire_tension_loop_enabled (PowerCore_init example_config 0)
      \<and> output_value (PowerCore_init example_config 0) = Some 0)"
  by (simp add: PowerCore_init_def)

text \<open>
  C3, amended: right after construction, for every configuration, feed scaling is
  disabled and the wire tension loop is enabled.
\<close>

theorem C3_initial_flags:
  "\<not> scaling_enabled (PowerCore_init cfg now)
   \<and> wire_tension_loop_enabled (PowerCore_init cfg now)"
  by (simp add: PowerCore_init_def)

subsection \<open>The feed range\<close>




subsection \<open>Enabling a feedback loop\<close>

lemma PID_reset_is_new:
  "PID_reset p now =
     PID_new (Kp p) (Ki p) (Kd p) (setpoint p) (output_limits p) (sample_time p) now"
  by (simp add: PID_reset_def PID_new_def)

lemma PID_reset_keeps:
  "Kp (PID_reset p now) = Kp p" "Ki (PID_reset p now) = Ki p" "Kd (PID_reset p now) = Kd p"
  "setpoint (PID_reset p now) = setpoint p" "output_limits (PID_reset p now) = output_limits p"
  "sample_time (PID_reset p now) = sample_time p"
  by (simp_all add: PID_reset_def)

lemma clamp_in_limits:
  "fst limits \<le> snd limits \<Longrightarrow> fst limits \<le> clamp v limits \<and> clamp v limits \<le> snd limits"
  by (simp add: clamp_def)

text \<open>
  C5. \<^verbatim>\<open>enable_scaling\<close> leaves feed scaling enabled, and the command
  \<^verbatim>\<open>ENABLE_WIRE_TENSION_LOOP\<close> with \<open>ENABLE \<noteq> 0\<close> leaves the wire tension loop enabled;
  in both cases the controller of the loop is then the controller one gets by
  constructing it at that moment with the gains, setpoint, output bounds and sample
  period it had, so these are unchanged and its next update answers as the update
  of the controller just constructed does.
\<close>

theorem C5_enabling_resets_pid:
  assumes "enable \<noteq> 0"
  shows "scaling_enabled (enable_scaling now s)
     \<and> feedrate_pid_controller (enable_scaling now s) =
         PID_new (Kp (feedrate_pid_controller s)) (Ki (feedrate_pid_controller s))
           (Kd (feedrate_pid_controller s)) (setpoint (feedrate_pid_controller s))
           (output_limits (feedrate_pid_controller s)) (sample_time (feedrate_pid_controller s)) now
     \<and> PID_call (feedrate_pid_controller (enable_scaling now s)) sample t =
         PID_call (PID_new (Kp (feedrate_pid_controller s)) (Ki (feedrate_pid_controller s))
           (Kd (feedrate_pid_controller s)) (setpoint (feedrate_pid_controller s))
           (output_limits (feedrate_pid_controller s)) (sample_time (feedrate_pid_controller s)) now)
           sample t
     \<and> wire_tension_loop_enabled (state_after (cmd_ENABLE_WIRE_TENSION_LOOP enable now s))
     \<and> wire_pid_controller (state_after (cmd_ENABLE_WIRE_TENSION_LOOP enable now s)) =
         PID_new (Kp (wire_pid_controller s)) (Ki (wire_pid_controller s))
           (Kd (wire_pid_controller s)) (setpoint (wire_pid_controller s))
           (output_limits (wire_pid_controller s)) (sample_time (wire_pid_controller s)) now
     \<and> PID_call (wire_pid_controller (state_after (cmd_ENABLE_WIRE_TENSION_LOOP enable now s)))
           sample t =
         PID_call (PID_new (Kp (wire_pid_controller s)) (Ki (wire_pid_controller s))
           (Kd (wire_pid_controller s)) (setpoint (wire_pid_controller s))
           (output_limits (wire_pid_controller s)) (sample_time (wire_pid_controller s)) now)
           sample t"
  using assms
  by (simp add: enable_scaling_def cmd_ENABLE_WIRE_TENSION_LOOP_def returns_def PID_reset_is_new)

text \<open>
  An example: a feedrate controller with an integral gain that carries an integral of 7
  and a last output of 1 answers 1 to the sample 0.5; after \<^verbatim>\<open>enable_scaling\<close> at
  time 5 it answers 0.275 to the same sample at time 6, as the controller constructed
  at time 5 does.
\<close>

theorem C5_enabling_resets_pid_witness:
  "(1::int) \<noteq> 0
   \<and> fst (PID_call (feedrate_pid_controller
        (example_core\<lparr>feedrate_pid_controller :=
           (feedrate_pid_controller example_core)
             \<lparr>Ki := 1, integral := 7, last_error := 3, last_output := Some 1\<rparr>\<rparr>)) (1 / 2) 6) = 1
   \<and> fst (PID_call (feedrate_pid_controller (enable_scaling 5
        (example_core\<lparr>feedrate_pid_controller :=
           (feedrate_pid_controller example_core)
             \<lparr>Ki := 1, integral := 7, last_error := 3, last_output := Some 1\<rparr>\<rparr>))) (1 / 2) 6) =
       11 / 40
   \<and> fst (PID_call (PID_new (1 / 10) 1 0 (3 / 4) (0, 1) (1 / 10) 5) (1 / 2) 6) = 11 / 40"
  using C5_enabling_resets_pid [of 1 5
      "example_core\<lparr>feedrate_pid_controller :=
           (feedrate_pid_controller example_core)
             \<lparr>Ki := 1, integral := 7, last_error := 3, last_output := Some 1\<rparr>\<rparr>" "1 / 2" 6]
  by (simp add: example_core_def handle_connect_def PowerCore_init_def example_config_def
      PID_new_def PID_call_def clamp_def Let_def)

subsection \<open>Moves while scaling is disabled\<close>

text \<open>
  C6. While scaling is disabled, a move request on a connected tool head makes exactly
  one call, \<^verbatim>\<open>toolhead.move\<close> with the requested position and speed, and leaves the
  state of PowerCore as it is; a command error of the tool head is passed on. The
  stored output plays no part: whatever it is, set or not, the calls and the
  exception are the same, and the check of a move leaves the move unscaled. A
  duty-cycle sample changes nothing and makes no call.
\<close>

theorem C6_disabled_move_passes_through:
  assumes "\<not> scaling_enabled s" and "toolhead s = Some r"
  shows "emitted (move X s th newpos speed) = [ToolheadMove newpos speed]
     \<and> fst (state_after (move X s th newpos speed)) = s
     \<and> raised (move X s th newpos speed) =
         (case th_move X th newpos speed of
            Inl msg \<Rightarrow> Some (CommandError msg)
          | Inr th1 \<Rightarrow> None)
     \<and> emitted (move X (s\<lparr>output_value := v\<rparr>) th newpos speed) =
         emitted (move X s th newpos speed)
     \<and> raised (move X (s\<lparr>output_value := v\<rparr>) th newpos speed) =
         raised (move X s th newpos speed)
     \<and> check_move None (s\<lparr>output_value := v\<rparr>) = Inr None
     \<and> pwm_in_callback duty_cycle now s = returns s []"
  using assms
  by (simp add: move_def check_move_def pwm_in_callback_def returns_def raises_def
      split: sum.splits)

theorem C6_disabled_move_passes_through_witness:
  "\<not> scaling_enabled example_core
   \<and> toolhead example_core = Some ToolHeadObject
   \<and> emitted (move example_api example_core [0, 0, 0, 0] [5, 0, 0, 0] 50) =
       [ToolheadMove [5, 0, 0, 0] 50]
   \<and> state_after (move example_api example_core [0, 0, 0, 0] [5, 0, 0, 0] 50) =
       (example_core, [5, 0, 0, 0])
   \<and> raised (move example_api example_core [0, 0, 0, 0] [5, 0, 0, 0] 50) = None
   \<and> state_after (pwm_in_callback (9 / 10) 1 example_core) = example_core"
proof -
  have off: "\<not> scaling_enabled example_core"
    and conn: "toolhead example_core = Some ToolHeadObject"
    by (simp_all add: example_defs)
  have fin: "snd (state_after (move example_api example_core [0, 0, 0, 0] [5, 0, 0, 0] 50)) =
      [5, 0, 0, 0]"
    using off conn by (simp add: move_def example_api_def returns_def)
  show ?thesis
    using off conn fin
      C6_disabled_move_passes_through [OF off conn, of example_api "[0, 0, 0, 0]"
        "[5, 0, 0, 0]" 50 None "9 / 10" 1]
    by (simp add: example_api_def returns_def prod_eq_iff)
qed

subsection \<open>The wire actuators\<close>

lemma py_round_bounds:
  assumes "of_int a \<le> x" and "x \<le> of_int b"
  shows "a \<le> py_round x \<and> py_round x \<le> b"
proof -
  have fa: "a \<le> \<lfloor>x\<rfloor>" using assms(1) by (simp add: le_floor_iff)
  have fb: "\<lfloor>x\<rfloor> \<le> b" using assms(2) by (simp add: floor_le_iff)
  have "\<lfloor>x\<rfloor> + 1 \<le> b" if "x - of_int \<lfloor>x\<rfloor> > 0"
  proof -
    from that have "of_int \<lfloor>x\<rfloor> < x" by simp
    then have "of_int \<lfloor>x\<rfloor> < (of_int b :: real)" using assms(2) by linarith
    then show ?thesis by simp
  qed
  then show ?thesis using fa fb
    by (auto simp add: py_round_def Let_def)
qed

lemma py_round_255:
  "0 \<le> out \<Longrightarrow> out \<le> 1 \<Longrightarrow> 0 \<le> py_round (out * 255) \<and> py_round (out * 255) \<le> 255"
  using py_round_bounds [of 0 "out * 255" 255] by simp

text \<open>
  What the two operations on the wire actuators do on a state in which both
  \<^verbatim>\<open>WireMover\<close> objects hold a tool head: the callback sets the pin of the actuator
  that is not primary to \<open>round(o * 255)\<close>, for the output \<open>o\<close> of the controller on the
  last sample of the batch; the command sets both pins when the loop is disabled and
  the pin of the primary actuator when it is enabled.
\<close>

lemma wire_tension_callback_routing:
  assumes "wire_tension_loop_enabled s" and "samples \<noteq> []"
    and "wm_toolhead (sender_wire_tool s) = Some r1"
    and "wm_toolhead (receiver_wire_tool s) = Some r2"
  shows "emitted (wire_tension_callback samples now s) =
           [SetPin (wm_pwm_tool (if sender_is_primary s then receiver_wire_tool s
                                 else sender_wire_tool s))
              (of_int (py_round (fst (PID_call (wire_pid_controller s) (last samples) now) * 255)))]"
  using assms
  by (cases samples)
    (simp_all add: wire_tension_callback_def set_speed_def returns_def Let_def split: prod.splits)

lemma cmd_SET_WIRE_FEED_routing:
  assumes "wm_toolhead (sender_wire_tool s) = Some r1"
    and "wm_toolhead (receiver_wire_tool s) = Some r2"
  shows "emitted (cmd_SET_WIRE_FEED speed s) =
           (if \<not> wire_tension_loop_enabled s
            then [SetPin (wm_pwm_tool (sender_wire_tool s)) speed,
                  SetPin (wm_pwm_tool (receiver_wire_tool s)) speed]
            else [SetPin (wm_pwm_tool (if sender_is_primary s then sender_wire_tool s
                                        else receiver_wire_tool s)) speed])
           @ [RespondInfo ''Wire feed speed set to: {speed}'' [speed]]"
  using assms by (simp add: cmd_SET_WIRE_FEED_def set_speed_def returns_def)

text \<open>
  The state the module builds is not such a state: \<^verbatim>\<open>__init__\<close> hands
  \<^verbatim>\<open>self.toolhead\<close>, which is \<^verbatim>\<open>None\<close> until \<^verbatim>\<open>_handle_connect\<close> runs, to both
  \<^verbatim>\<open>WireMover\<close> objects, and no operation assigns the attribute of a
  \<^verbatim>\<open>WireMover\<close> afterwards.
\<close>

lemma wire_movers_have_no_toolhead:
  "wm_toolhead (sender_wire_tool (handle_connect (PowerCore_init cfg now))) = None"
  "wm_toolhead (receiver_wire_tool (handle_connect (PowerCore_init cfg now))) = None"
  by (simp_all add: handle_connect_def PowerCore_init_def WireMover_init_def)

lemma wire_tools_frame:
  "sender_wire_tool (state_after (wire_tension_callback samples now s)) = sender_wire_tool s"
  "receiver_wire_tool (state_after (wire_tension_callback samples now s)) = receiver_wire_tool s"
  "sender_wire_tool (state_after (cmd_SET_WIRE_FEED speed s)) = sender_wire_tool s"
  "receiver_wire_tool (state_after (cmd_SET_WIRE_FEED speed s)) = receiver_wire_tool s"
  "sender_wire_tool (state_after (cmd_ENABLE_WIRE_TENSION_LOOP enable now s)) = sender_wire_tool s"
  "receiver_wire_tool (state_after (cmd_ENABLE_WIRE_TENSION_LOOP enable now s)) =
     receiver_wire_tool s"
  "sender_wire_tool (state_after (pwm_in_callback d now s)) = sender_wire_tool s"
  "receiver_wire_tool (state_after (pwm_in_callback d now s)) = receiver_wire_tool s"
  "sender_wire_tool (state_after (cmd_set_powercore_feedrates mn mx s)) = sender_wire_tool s"
  "receiver_wire_tool (state_after (cmd_set_powercore_feedrates mn mx s)) = receiver_wire_tool s"
  "sender_wire_tool (enable_scaling now s) = sender_wire_tool s"
  "receiver_wire_tool (enable_scaling now s) = receiver_wire_tool s"
  "sender_wire_tool (disable_scaling s) = sender_wire_tool s"
  "receiver_wire_tool (disable_scaling s) = receiver_wire_tool s"
  by (simp_all add: wire_tension_callback_def cmd_SET_WIRE_FEED_def
      cmd_ENABLE_WIRE_TENSION_LOOP_def pwm_in_callback_def cmd_set_powercore_feedrates_def
      enable_scaling_def disable_scaling_def returns_def raises_def Let_def
      split: list.splits prod.splits sum.splits)

text \<open>
  C7. The claim: on a batch, the speed \<open>round(o * 255)\<close> is commanded to the actuator
  that is not primary. On the state after construction and connection, for every
  configuration and every batch that is not empty, \<^verbatim>\<open>set_speed\<close> raises
  \<^verbatim>\<open>AttributeError\<close> and no pin is set.
\<close>

theorem C7_wire_tension_callback_raises:
  "raised (wire_tension_callback (x # xs) t (handle_connect (PowerCore_init cfg now))) =
     Some AttributeError
   \<and> emitted (wire_tension_callback (x # xs) t (handle_connect (PowerCore_init cfg now))) = []"
  by (simp add: wire_tension_callback_def handle_connect_def PowerCore_init_def
      WireMover_init_def set_speed_def raises_def returns_def Let_def split: prod.splits)

text \<open>
  C9. The claim: the command sets both actuators when the loop is disabled and the
  primary one when it is enabled. On the state after construction and connection
  (loop enabled), and on that state after the loop has been disabled, the command
  raises \<^verbatim>\<open>AttributeError\<close> in the first \<^verbatim>\<open>set_speed\<close>, and no pin is set.
\<close>

theorem C9_set_wire_feed_raises:
  "raised (cmd_SET_WIRE_FEED speed (handle_connect (PowerCore_init cfg now))) =
     Some AttributeError
   \<and> emitted (cmd_SET_WIRE_FEED speed (handle_connect (PowerCore_init cfg now))) = []
   \<and> raised (cmd_SET_WIRE_FEED speed
        (state_after (cmd_ENABLE_WIRE_TENSION_LOOP 0 t
           (handle_connect (PowerCore_init cfg now))))) = Some AttributeError
   \<and> emitted (cmd_SET_WIRE_FEED speed
        (state_after (cmd_ENABLE_WIRE_TENSION_LOOP 0 t
           (handle_connect (PowerCore_init cfg now))))) = []"
  by (simp add: cmd_SET_WIRE_FEED_def cmd_ENABLE_WIRE_TENSION_LOOP_def handle_connect_def
      PowerCore_init_def WireMover_init_def set_speed_def raises_def returns_def Let_def)

subsection \<open>Execution of a segmented move\<close>

lemma submitted_append: "submitted (xs @ ys) = submitted xs @ submitted ys"
  by (induction xs rule: submitted.induct) simp_all

text \<open>
  A run through a list of sub-moves that emits no command-error notification has
  submitted every sub-move of the list, and a longer list goes on from where it ends.
\<close>

lemma execute_moves_prefix:
  assumes "toolhead s = Some r"
    and "SendEvent ''gcode:command_error'' \<notin> set (emitted (execute_moves X s th pre))"
  shows "execute_moves X s th (pre @ rest) =
           (execute_moves X (fst (state_after (execute_moves X s th pre)))
              (snd (state_after (execute_moves X s th pre))) rest)
             \<lparr>emitted := emitted (execute_moves X s th pre) @
                emitted (execute_moves X (fst (state_after (execute_moves X s th pre)))
                  (snd (state_after (execute_moves X s th pre))) rest)\<rparr>
         \<and> toolhead (fst (state_after (execute_moves X s th pre))) = Some r
         \<and> submitted (emitted (execute_moves X s th pre)) = map target pre"
  using assms
proof (induction pre arbitrary: s th)
  case Nil
  then show ?case by (simp add: returns_def)
next
  case (Cons m pre)
  let ?s1 = "s\<lparr>processing_moves := Some True\<rparr>"
  have conn1: "toolhead ?s1 = Some r" using Cons.prems(1) by simp
  show ?case
  proof (cases "th_move X th (fst (snd m)) (snd (snd m))")
    case (Inl msg)
    then show ?thesis using Cons.prems by (simp add: returns_def)
  next
    case (Inr th1)
    obtain th2 nmt where fl: "th_flush X th1 = (th2, nmt)" by (cases "th_flush X th1")
    have ok: "SendEvent ''gcode:command_error'' \<notin> set (emitted (execute_moves X ?s1 th2 pre))"
      using Cons.prems Inr fl by (simp add: Let_def)
    note IH = Cons.IH [OF conn1 ok]
    show ?thesis
      using IH Cons.prems(1) Inr fl
      by (simp add: Let_def submitted_append target_def split: option.splits)
  qed
qed

lemma execute_moves_failing_head:
  assumes "toolhead s = Some r" and "th_move X th b v = Inl msg"
  shows "execute_moves X s th ((a, b, v) # post) =
           returns (s\<lparr>processing_moves := Some True\<rparr>, th)
             [ToolheadMove b v, GcodeRespondError msg, SendEvent ''gcode:command_error'']"
  using assms by simp

text \<open>
  C8. Let the sub-moves \<open>pre\<close> be executed without a command error, and let the tool
  head, in the state it has then, raise a command error with the text \<open>msg\<close> on the
  next sub-move \<open>(a, b, v)\<close>. Then the run through \<open>pre @ (a, b, v) # post\<close> makes the
  calls of the run through \<open>pre\<close>, then the one call of \<^verbatim>\<open>toolhead.move\<close> that fails,
  then reports \<open>msg\<close> and sends \<^verbatim>\<open>gcode:command_error\<close>, and nothing more: the moves
  submitted are those of \<open>pre\<close> and the failing one, each once and in order, none of
  \<open>post\<close>. No exception leaves \<^verbatim>\<open>execute_moves\<close>, and the tool head stays in the
  state the sub-moves of \<open>pre\<close> have brought it to.
\<close>

theorem C8_command_error_aborts:
  assumes conn: "toolhead s = Some r"
    and pre_ok: "SendEvent ''gcode:command_error'' \<notin> set (emitted (execute_moves X s th pre))"
    and fails: "th_move X (snd (state_after (execute_moves X s th pre))) b v = Inl msg"
  shows "emitted (execute_moves X s th (pre @ (a, b, v) # post)) =
           emitted (execute_moves X s th pre) @
             [ToolheadMove b v, GcodeRespondError msg, SendEvent ''gcode:command_error'']
         \<and> submitted (emitted (execute_moves X s th (pre @ (a, b, v) # post))) =
             map target (pre @ [(a, b, v)])
         \<and> raised (execute_moves X s th (pre @ (a, b, v) # post)) = None
         \<and> snd (state_after (execute_moves X s th (pre @ (a, b, v) # post))) =
             snd (state_after (execute_moves X s th pre))"
proof -
  note P = execute_moves_prefix [OF conn pre_ok, of "(a, b, v) # post"]
  from P have conn': "toolhead (fst (state_after (execute_moves X s th pre))) = Some r"
    by blast
  note H = execute_moves_failing_head [OF conn' fails, of a post]
  from P have run: "execute_moves X s th (pre @ (a, b, v) # post) =
           (execute_moves X (fst (state_after (execute_moves X s th pre)))
              (snd (state_after (execute_moves X s th pre))) ((a, b, v) # post))
             \<lparr>emitted := emitted (execute_moves X s th pre) @
                emitted (execute_moves X (fst (state_after (execute_moves X s th pre)))
                  (snd (state_after (execute_moves X s th pre))) ((a, b, v) # post))\<rparr>"
    by blast
  from P have sub: "submitted (emitted (execute_moves X s th pre)) = map target pre" by blast
  show ?thesis
    unfolding run H using sub by (simp add: returns_def submitted_append target_def)
qed

text \<open>
  On the example machine the five sub-moves of the move to \<open>x = 10\<close> are executed up
  to the fourth, which the tool head refuses; the fifth is never submitted.
\<close>

theorem C8_command_error_aborts_witness:
  "emitted (execute_moves example_api (enable_scaling 1 example_core) [0, 0, 0, 0]
      [([0, 0, 0, 0], [2, 0, 0, 0], 50), ([2, 0, 0, 0], [4, 0, 0, 0], 50),
       ([4, 0, 0, 0], [6, 0, 0, 0], 50), ([6, 0, 0, 0], [8, 0, 0, 0], 50),
       ([8, 0, 0, 0], [10, 0, 0, 0], 50)]) =
     [ToolheadMove [2, 0, 0, 0] 50, RegisterLookaheadCallback, LookaheadFlush, ReactorPause 0.999,
      ToolheadMove [4, 0, 0, 0] 50, RegisterLookaheadCallback, LookaheadFlush, ReactorPause 0.999,
      ToolheadMove [6, 0, 0, 0] 50, RegisterLookaheadCallback, LookaheadFlush, ReactorPause 0.999,
      ToolheadMove [8, 0, 0, 0] 50, GcodeRespondError ''Move out of range'',
      SendEvent ''gcode:command_error'']"
proof -
  let ?s = "enable_scaling 1 example_core"
  let ?pre = "[([0, 0, 0, 0], [2, 0, 0, 0], 50), ([2, 0, 0, 0], [4, 0, 0, 0], 50),
       ([4, 0, 0, 0], [6, 0, 0, 0], 50)] :: sub_move list"
  have conn: "toolhead ?s = Some ToolHeadObject" by (simp add: example_defs)
  have pre: "emitted (execute_moves example_api ?s [0, 0, 0, 0] ?pre) =
     [ToolheadMove [2, 0, 0, 0] 50, RegisterLookaheadCallback, LookaheadFlush, ReactorPause 0.999,
      ToolheadMove [4, 0, 0, 0] 50, RegisterLookaheadCallback, LookaheadFlush, ReactorPause 0.999,
      ToolheadMove [6, 0, 0, 0] 50, RegisterLookaheadCallback, LookaheadFlush, ReactorPause 0.999]"
    and st: "snd (state_after (execute_moves example_api ?s [0, 0, 0, 0] ?pre)) = [6, 0, 0, 0]"
    by (simp_all add: example_defs returns_def Let_def)
  have ok: "SendEvent ''gcode:command_error''
      \<notin> set (emitted (execute_moves example_api ?s [0, 0, 0, 0] ?pre))"
    unfolding pre by simp
  have fails: "th_move example_api
      (snd (state_after (execute_moves example_api ?s [0, 0, 0, 0] ?pre)))
      [8, 0, 0, 0] 50 = Inl ''Move out of range''"
    unfolding st by (simp add: example_api_def)
  show ?thesis
    using C8_command_error_aborts [OF conn ok fails, of "[6, 0, 0, 0]"
        "[([8, 0, 0, 0], [10, 0, 0, 0], 50)]"]
    unfolding pre by simp
qed

subsection \<open>The stored scaling output\<close>

text \<open>
  C10. \<^verbatim>\<open>enable_scaling\<close> changes the controller and the enabled flag and nothing
  else, \<^verbatim>\<open>disable_scaling\<close> changes the enabled flag and nothing else; so neither
  changes the stored output, and \<^verbatim>\<open>scale_move\<close> after a disable and a re-enable reads
  what it read before. After a sample processed while enabled, the value read after a
  disable and a re-enable is the output the controller gave for that sample. On the
  state after construction, connection and a sample (ignored, scaling being disabled),
  enabling leaves no output to read: \<^verbatim>\<open>scale_move\<close> raises \<^verbatim>\<open>AttributeError\<close>.
\<close>

theorem C10_enable_disable_keep_output:
  "(\<exists>pid. enable_scaling now s = s\<lparr>feedrate_pid_controller := pid, scaling_enabled := True\<rparr>)
   \<and> disable_scaling s = s\<lparr>scaling_enabled := False\<rparr>
   \<and> output_value (enable_scaling now s) = output_value s
   \<and> output_value (disable_scaling s) = output_value s
   \<and> scale_move (enable_scaling now (disable_scaling s)) = scale_move s
   \<and> output_value (state_after (pwm_in_callback d t1 (enable_scaling t0 s))) =
       Some (fst (PID_call (feedrate_pid_controller (enable_scaling t0 s)) d t1))
   \<and> scale_move (enable_scaling t2
        (disable_scaling (state_after (pwm_in_callback d t1 (enable_scaling t0 s))))) =
       Inr ((min_feedrate s
             + fst (PID_call (feedrate_pid_controller (enable_scaling t0 s)) d t1)
               * (max_feedrate s - min_feedrate s)) / 60,
            adjustment_accel s)
   \<and> scale_move (enable_scaling now
        (state_after (pwm_in_callback d t1 (handle_connect (PowerCore_init cfg t0))))) =
       Inl AttributeError"
proof -
  have "\<exists>pid. enable_scaling now s = s\<lparr>feedrate_pid_controller := pid, scaling_enabled := True\<rparr>"
    by (rule exI [of _ "PID_reset (feedrate_pid_controller s) now"])
      (simp add: enable_scaling_def)
  then show ?thesis
    by (simp add: enable_scaling_def disable_scaling_def scale_move_def pwm_in_callback_def
        returns_def handle_connect_def PowerCore_init_def Let_def
        split: prod.splits option.splits)
qed

end
